theory Spec2Isabelle
  imports Main
begin

section \<open>Python strings\<close>

text \<open>
  A Python \<open>str\<close> is a sequence of Unicode code points, and \<open>len\<close>, \<open>strip\<close> and
  \<open>split\<close> work on code points. A string is therefore modelled as the list of its code
  points. Literals of the source that are plain ASCII are written with \<open>ascii\<close>; the two
  Chinese literals are spelled out by code point.
\<close>

type_synonym pystr = "nat list"

definition ascii :: "string \<Rightarrow> pystr" where
  "ascii s = map of_char s"

text \<open>
  \<open>str.isspace\<close> for one character: the code points whose bidirectional class is WS, B or
  S or whose category is Zs. These are the characters \<open>strip()\<close> and \<open>lstrip()\<close> remove
  when called without an argument.
\<close>

definition isspace :: "nat \<Rightarrow> bool" where
  "isspace c =
     ((9 \<le> c \<and> c \<le> 13) \<or> (28 \<le> c \<and> c \<le> 32) \<or> c = 133 \<or> c = 160 \<or> c = 5760
      \<or> (8192 \<le> c \<and> c \<le> 8202) \<or> c = 8232 \<or> c = 8233 \<or> c = 8239 \<or> c = 8287
      \<or> c = 12288)"

definition lstrip :: "pystr \<Rightarrow> pystr" where
  "lstrip s = dropWhile isspace s"

definition rstrip :: "pystr \<Rightarrow> pystr" where
  "rstrip s = rev (dropWhile isspace (rev s))"

definition strip :: "pystr \<Rightarrow> pystr" where
  "strip s = lstrip (rstrip s)"

text \<open>\<open>s.startswith(p)\<close>.\<close>

fun startswith :: "pystr \<Rightarrow> pystr \<Rightarrow> bool" where
  "startswith s [] = True"
| "startswith [] (p # ps) = False"
| "startswith (c # cs) (p # ps) = (c = p \<and> startswith cs ps)"

text \<open>
  \<open>s.split(sep)\<close> for a separator of one character: the pieces between the occurrences of
  the separator, so that the empty string gives one empty piece.
\<close>

fun split :: "nat \<Rightarrow> pystr \<Rightarrow> pystr list" where
  "split sep [] = [[]]"
| "split sep (c # cs) =
     (if c = sep then [] # split sep cs
      else (case split sep cs of
              [] \<Rightarrow> [[c]]
            | piece # pieces \<Rightarrow> (c # piece) # pieces))"

text \<open>\<open>sep.join(xs)\<close>.\<close>

fun join :: "pystr \<Rightarrow> pystr list \<Rightarrow> pystr" where
  "join sep [] = []"
| "join sep [x] = x"
| "join sep (x # y # ys) = x @ sep @ join sep (y # ys)"

section \<open>The collaborators of the translator\<close>

text \<open>
  A model call either returns text or raises. What a failed call raises (a network,
  authentication or rate-limit error) is an instance of \<open>Exception\<close>, which both
  handlers of the source catch, \<open>except Exception\<close> as well as the bare \<open>except\<close>, so
  one kind of failure is enough. The message of the exception is kept, as the source
  prints it.
\<close>

datatype exn = Exception pystr

text \<open>\<open>TextChunk\<close>: the translator reads the fields \<open>content\<close> and \<open>chunk_type\<close>.\<close>

record text_chunk =
  content :: pystr
  chunk_type :: pystr

text \<open>
  The dictionary returned by \<open>compare_summaries\<close>. The translator reads the keys
  \<open>completeness_score\<close> and \<open>missing_content\<close>.
\<close>

record comparison =
  completeness_score :: int
  missing_content :: pystr
  suggestions :: pystr

text \<open>
  Every call to a collaborator is recorded, with what it was given and what it gave back,
  in the order of the calls. The summaries are opaque to the translator: their type is
  the parameter \<open>'s\<close>.
\<close>

datatype 's event =
    OriginalSummary pystr 's
  | Translation pystr "exn + pystr"
  | TranslatedSummary pystr 's
  | Comparison 's 's comparison
  | Retranslation pystr pystr "exn + pystr"

text \<open>
  The language model, the chunker and the summary generator are not part of the
  translator: they are parameters. A model may answer the same prompt differently each
  time, so each collaborator that goes to the model sees the calls made so far. The two
  model fields give the raw text the model returns for the filled-in template, before
  the output parser, or the exception the call raises; the chunker is a function of the
  text alone.

  The modules of the chunker and of the summary generator are not among the sources,
  and \<open>translate_content\<close> calls them outside any handler. The spec gives them as
  never failing (a summary that cannot be made is empty, a comparison that cannot
  be parsed has a default score, the parser degrades to paragraphs), so they are total
  functions here and the two chains are the only calls that can raise.
\<close>

record 's env =
  llm_translation :: "'s event list \<Rightarrow> pystr \<Rightarrow> exn + pystr"
  llm_retranslation :: "'s event list \<Rightarrow> pystr \<Rightarrow> pystr \<Rightarrow> exn + pystr"
  chunk_text :: "pystr \<Rightarrow> text_chunk list"
  generate_original_summary :: "'s event list \<Rightarrow> pystr \<Rightarrow> 's"
  generate_translated_summary :: "'s event list \<Rightarrow> pystr \<Rightarrow> 's"
  compare_summaries :: "'s event list \<Rightarrow> 's \<Rightarrow> 's \<Rightarrow> comparison"

section \<open>The translator\<close>

text \<open>\<open>TranslationOutputParser.parse\<close>: each of its three branches strips the text.\<close>

definition parse :: "pystr \<Rightarrow> pystr" where
  "parse text = strip text"

text \<open>\<open>translation_chain.invoke({"content": c})\<close>: template, model, parser.\<close>

definition translation_chain :: "'s env \<Rightarrow> 's event list \<Rightarrow> pystr \<Rightarrow> (exn + pystr) \<times> 's event list" where
  "translation_chain env h c =
     (let r = (case llm_translation env h c of
                 Inl e \<Rightarrow> Inl e
               | Inr text \<Rightarrow> Inr (parse text))
      in (r, h @ [Translation c r]))"

text \<open>\<open>retranslation_chain.invoke({"original_text": t, "missing_content": m})\<close>.\<close>

definition retranslation_chain ::
  "'s env \<Rightarrow> 's event list \<Rightarrow> pystr \<Rightarrow> pystr \<Rightarrow> (exn + pystr) \<times> 's event list" where
  "retranslation_chain env h t m =
     (let r = (case llm_retranslation env h t m of
                 Inl e \<Rightarrow> Inl e
               | Inr text \<Rightarrow> Inr (parse text))
      in (r, h @ [Retranslation t m r]))"

text \<open>The test of \<open>_translate_code_block\<close> for a comment line.\<close>

definition is_comment :: "pystr \<Rightarrow> bool" where
  "is_comment line =
     (startswith (strip line) (ascii ''#'') \<or> startswith (strip line) (ascii ''//''))"

text \<open>
  The loop of \<open>_translate_code_block\<close> over the lines: a comment line is sent stripped to
  the translation chain and comes back behind as many spaces as the line had leading
  whitespace characters; when the call raises, the line is appended as it is; every other
  line is appended as it is.
\<close>

fun translate_lines :: "'s env \<Rightarrow> 's event list \<Rightarrow> pystr list \<Rightarrow> pystr list \<times> 's event list" where
  "translate_lines env h [] = ([], h)"
| "translate_lines env h (line # lines) =
     (if is_comment line then
        (case translation_chain env h (strip line) of
           (Inr comment_translation, h') \<Rightarrow>
             (let indent = length line - length (lstrip line);
                  (translated_lines, h'') = translate_lines env h' lines
              in ((replicate indent 32 @ comment_translation) # translated_lines, h''))
         | (Inl e, h') \<Rightarrow>
             (let (translated_lines, h'') = translate_lines env h' lines
              in (line # translated_lines, h'')))
      else
        (let (translated_lines, h') = translate_lines env h lines
         in (line # translated_lines, h')))"

definition translate_code_block :: "'s env \<Rightarrow> 's event list \<Rightarrow> pystr \<Rightarrow> pystr \<times> 's event list" where
  "translate_code_block env h code_content =
     (let (translated_lines, h') = translate_lines env h (split 10 code_content)
      in (join [10] translated_lines, h'))"

text \<open>
  \<open>translate_chunk\<close>. A code chunk goes to \<open>_translate_code_block\<close>, which handles the
  failures of its own model calls, so nothing reaches the outer handler from there; any
  other chunk is one call of the translation chain, and when that call raises the result
  is the marker \<open>"\<dots>: "\<close> (code points 32763, 35793, 22833, 36133, then a colon and a
  space) followed by the content of the chunk.
\<close>

definition failure_marker :: pystr where
  "failure_marker = [32763, 35793, 22833, 36133, 58, 32]"

definition translate_chunk :: "'s env \<Rightarrow> 's event list \<Rightarrow> text_chunk \<Rightarrow> pystr \<times> 's event list" where
  "translate_chunk env h chunk =
     (if chunk_type chunk = ascii ''code'' then translate_code_block env h (content chunk)
      else (case translation_chain env h (content chunk) of
              (Inr translation, h') \<Rightarrow> (translation, h')
            | (Inl e, h') \<Rightarrow> (failure_marker @ content chunk, h')))"

text \<open>The loop of \<open>translate_content\<close> over the chunks.\<close>

fun translate_chunks :: "'s env \<Rightarrow> 's event list \<Rightarrow> text_chunk list \<Rightarrow> pystr list \<times> 's event list" where
  "translate_chunks env h [] = ([], h)"
| "translate_chunks env h (chunk # chunks) =
     (let (translated_content, h') = translate_chunk env h chunk;
          (translated_chunks, h'') = translate_chunks env h' chunks
      in (translated_content # translated_chunks, h''))"

text \<open>\<open>_merge_translated_chunks\<close>: the stripped chunks that are not empty after stripping,
  joined by two newlines.\<close>

definition merge_translated_chunks :: "pystr list \<Rightarrow> pystr" where
  "merge_translated_chunks translated_chunks =
     join [10, 10] (map strip (filter (\<lambda>chunk. strip chunk \<noteq> []) translated_chunks))"

text \<open>\<open>_retranslate_with_focus\<close>: \<open>None\<close> when the call raises.\<close>

definition retranslate_with_focus ::
  "'s env \<Rightarrow> 's event list \<Rightarrow> pystr \<Rightarrow> pystr \<Rightarrow> pystr option \<times> 's event list" where
  "retranslate_with_focus env h original_content missing =
     (case retranslation_chain env h original_content missing of
        (Inr retranslated, h') \<Rightarrow> (Some retranslated, h')
      | (Inl e, h') \<Rightarrow> (None, h'))"

text \<open>The sentinel of \<open>missing_content\<close>: the one character U+65E0.\<close>

definition none_sentinel :: pystr where
  "none_sentinel = [26080]"

text \<open>The dictionary \<open>stats\<close> returned by \<open>translate_content\<close>.\<close>

record 's stats =
  original_summary :: 's
  translated_summary :: 's
  comparison_result :: comparison
  chunk_count :: nat
  completeness_score_stats :: int

text \<open>
  \<open>translate_content\<close> is split at the test of the completeness score. The first part
  runs from the summary of the original to the first comparison; its result is the local
  variables at that point together with the calls made so far.
\<close>

record 's pass =
  p_original_summary :: 's
  p_chunks :: "text_chunk list"
  p_translated_content :: pystr
  p_translated_summary :: 's
  p_comparison_result :: comparison
  p_history :: "'s event list"

definition first_pass :: "'s env \<Rightarrow> 's event list \<Rightarrow> pystr \<Rightarrow> 's pass" where
  "first_pass env h c =
     (let original_summary' = generate_original_summary env h c;
          h1 = h @ [OriginalSummary c original_summary'];
          chunks = chunk_text env c;
          (translated_chunks, h2) = translate_chunks env h1 chunks;
          translated_content = merge_translated_chunks translated_chunks;
          translated_summary' = generate_translated_summary env h2 translated_content;
          h3 = h2 @ [TranslatedSummary translated_content translated_summary'];
          comparison_result' = compare_summaries env h3 original_summary' translated_summary';
          h4 = h3 @ [Comparison original_summary' translated_summary' comparison_result']
      in \<lparr>p_original_summary = original_summary', p_chunks = chunks,
          p_translated_content = translated_content, p_translated_summary = translated_summary',
          p_comparison_result = comparison_result', p_history = h4\<rparr>)"

text \<open>
  The second part: the test of the score and of the sentinel, the focused retranslation,
  which may replace the translation, its summary and the comparison, and then the stats
  dictionary. \<open>if retranslated_content\<close> is false for \<open>None\<close> and for the empty string.
\<close>

definition completeness_check :: "'s env \<Rightarrow> pystr \<Rightarrow> 's pass \<Rightarrow> (pystr \<times> 's stats) \<times> 's event list" where
  "completeness_check env c p =
     (let (translated_content, translated_summary', comparison_result', h') =
            (if completeness_score (p_comparison_result p) < 8
                \<and> missing_content (p_comparison_result p) \<noteq> none_sentinel
             then
               (case retranslate_with_focus env (p_history p) c
                       (missing_content (p_comparison_result p)) of
                  (Some retranslated_content, h5) \<Rightarrow>
                    (if retranslated_content \<noteq> [] then
                       (let translated_summary' =
                              generate_translated_summary env h5 retranslated_content;
                            h6 = h5 @ [TranslatedSummary retranslated_content translated_summary'];
                            comparison_result' =
                              compare_summaries env h6 (p_original_summary p) translated_summary';
                            h7 = h6 @ [Comparison (p_original_summary p) translated_summary'
                                         comparison_result']
                        in (retranslated_content, translated_summary', comparison_result', h7))
                     else
                       (p_translated_content p, p_translated_summary p, p_comparison_result p, h5))
                | (None, h5) \<Rightarrow>
                    (p_translated_content p, p_translated_summary p, p_comparison_result p, h5))
             else
               (p_translated_content p, p_translated_summary p, p_comparison_result p,
                p_history p));
          stats = \<lparr>original_summary = p_original_summary p,
                   translated_summary = translated_summary',
                   comparison_result = comparison_result',
                   chunk_count = length (p_chunks p),
                   completeness_score_stats = completeness_score comparison_result'\<rparr>
      in ((translated_content, stats), h'))"

definition translate_content :: "'s env \<Rightarrow> 's event list \<Rightarrow> pystr \<Rightarrow> (pystr \<times> 's stats) \<times> 's event list" where
  "translate_content env h c = completeness_check env c (first_pass env h c)"

section \<open>Reading the record of calls\<close>

fun is_translation :: "'s event \<Rightarrow> bool" where
  "is_translation (Translation c r) = True"
| "is_translation e = False"


text \<open>The most recent summary of a translation, with the text it was made from, and
  the most recent comparison, with the two summaries it compared.\<close>

fun last_translated_summary :: "'s event list \<Rightarrow> (pystr \<times> 's) option" where
  "last_translated_summary [] = None"
| "last_translated_summary (e # es) =
     (case last_translated_summary es of
        Some r \<Rightarrow> Some r
      | None \<Rightarrow> (case e of TranslatedSummary t s \<Rightarrow> Some (t, s) | _ \<Rightarrow> None))"

fun last_comparison :: "'s event list \<Rightarrow> ('s \<times> 's \<times> comparison) option" where
  "last_comparison [] = None"
| "last_comparison (e # es) =
     (case last_comparison es of
        Some r \<Rightarrow> Some r
      | None \<Rightarrow> (case e of Comparison a b r \<Rightarrow> Some (a, b, r) | _ \<Rightarrow> None))"

section \<open>A small concrete environment\<close>

text \<open>
  An environment for concrete runs: the translation model answers \<open>tr n\<close> and the
  retranslation model \<open>rt n\<close> when \<open>n\<close> calls have been made before, the chunker returns
  the whole text as one chunk of type \<open>ty\<close>, the summary of a text is the text itself,
  and every comparison gives the score \<open>sc\<close> with the missing content \<open>mc\<close>.
\<close>

definition example_env ::
  "(nat \<Rightarrow> exn + pystr) \<Rightarrow> (nat \<Rightarrow> exn + pystr) \<Rightarrow> pystr \<Rightarrow> int \<Rightarrow> pystr \<Rightarrow> pystr env" where
  "example_env tr rt ty sc mc =
     \<lparr>llm_translation = (\<lambda>h c. tr (length h)),
      llm_retranslation = (\<lambda>h t m. rt (length h)),
      chunk_text = (\<lambda>c. [\<lparr>content = c, chunk_type = ty\<rparr>]),
      generate_original_summary = (\<lambda>h c. c),
      generate_translated_summary = (\<lambda>h c. c),
      compare_summaries =
        (\<lambda>h a b. \<lparr>completeness_score = sc, missing_content = mc, suggestions = []\<rparr>)\<rparr>"

section \<open>Reading a merged text\<close>

text \<open>
  The units of a merged text: the pieces between the blank lines, that is what
  \<open>text.split("\n\n")\<close> gives, and whether a text contains a blank line separator.
\<close>

fun blank_line_units :: "pystr \<Rightarrow> pystr list" where
  "blank_line_units (c # d # cs) =
     (if c = 10 \<and> d = 10 then [] # blank_line_units cs
      else (case blank_line_units (d # cs) of
              [] \<Rightarrow> [[c]]
            | unit # units \<Rightarrow> (c # unit) # units))"
| "blank_line_units cs = [cs]"

fun has_blank_line :: "pystr \<Rightarrow> bool" where
  "has_blank_line (c # d # cs) = ((c = 10 \<and> d = 10) \<or> has_blank_line (d # cs))"
| "has_blank_line cs = False"

section \<open>The configuration manager\<close>

text \<open>
  The state of the \<open>ConfigParser\<close> after reading the file: the options of each section
  and the options of the default section, which every section inherits. The values are
  the values as \<open>get\<close> returns them.
\<close>

record config_parser =
  cp_defaults :: "pystr \<rightharpoonup> pystr"
  cp_sections :: "pystr \<rightharpoonup> (pystr \<rightharpoonup> pystr)"

definition has_section :: "config_parser \<Rightarrow> pystr \<Rightarrow> bool" where
  "has_section cp section = (case cp_sections cp section of None \<Rightarrow> False | Some d \<Rightarrow> True)"

text \<open>\<open>config.get(section, option, fallback=f)\<close>: the option of the section, else the option
  of the default section, else the fallback; the fallback too when the section is missing.\<close>

definition config_get :: "config_parser \<Rightarrow> pystr \<Rightarrow> pystr \<Rightarrow> pystr option \<Rightarrow> pystr option" where
  "config_get cp section option fallback =
     (case cp_sections cp section of
        None \<Rightarrow> fallback
      | Some d \<Rightarrow>
          (case d option of
             Some v \<Rightarrow> Some v
           | None \<Rightarrow> (case cp_defaults cp option of Some v \<Rightarrow> Some v | None \<Rightarrow> fallback)))"

text \<open>The truth value Python gives an optional string: \<open>None\<close> and the empty string are
  false.\<close>

definition truthy :: "pystr option \<Rightarrow> bool" where
  "truthy x = (case x of None \<Rightarrow> False | Some v \<Rightarrow> v \<noteq> [])"

text \<open>\<open>os.getenv(name, default)\<close>.\<close>

definition getenv_default :: "(pystr \<rightharpoonup> pystr) \<Rightarrow> pystr \<Rightarrow> pystr \<Rightarrow> pystr" where
  "getenv_default environ name dflt = (case environ name of Some v \<Rightarrow> v | None \<Rightarrow> dflt)"

record openai_config =
  api_key :: "pystr option"
  base_url :: "pystr option"

definition api_key_placeholder :: pystr where
  "api_key_placeholder = ascii ''your_openai_api_key_here''"

definition default_base_url :: pystr where
  "default_base_url = ascii ''https://api.openai.com/v1''"

text \<open>
  \<open>get_openai_config\<close>, with the parser state and the environment of the process as
  arguments. The dictionary \<open>config\<close> is updated by four statements in turn.
\<close>

definition get_openai_config ::
  "config_parser \<Rightarrow> (pystr \<rightharpoonup> pystr) \<Rightarrow> pystr option \<Rightarrow> pystr option \<Rightarrow> openai_config" where
  "get_openai_config cp environ api_key' base_url' =
     (let config0 = \<lparr>api_key = api_key', base_url = base_url'\<rparr>;
          config1 =
            (if \<not> truthy api_key' \<and> has_section cp (ascii ''openai'') then
               (let c = config0\<lparr>api_key := config_get cp (ascii ''openai'') (ascii ''api_key'') None\<rparr>
                in if api_key c = Some api_key_placeholder then c\<lparr>api_key := None\<rparr> else c)
             else config0);
          config2 =
            (if \<not> truthy base_url' \<and> has_section cp (ascii ''openai'') then
               config1\<lparr>base_url :=
                 config_get cp (ascii ''openai'') (ascii ''base_url'') (Some default_base_url)\<rparr>
             else config1);
          config3 =
            (if \<not> truthy (api_key config2) then
               config2\<lparr>api_key := environ (ascii ''OPENAI_API_KEY'')\<rparr>
             else config2);
          config4 =
            (if \<not> truthy (base_url config3) then
               config3\<lparr>base_url :=
                 Some (getenv_default environ (ascii ''OPENAI_BASE_URL'') default_base_url)\<rparr>
             else config3)
      in config4)"

text \<open>A parser state for concrete runs: one section \<open>openai\<close> with the given options.\<close>

definition openai_section :: "(pystr \<rightharpoonup> pystr) \<Rightarrow> config_parser" where
  "openai_section opts =
     \<lparr>cp_defaults = Map.empty, cp_sections = [ascii ''openai'' \<mapsto> opts]\<rparr>"

section \<open>Properties\<close>

lemma split_not_Nil: "split sep s \<noteq> []"
  by (induction s) (auto split: list.splits)

lemma join_split: "join [sep] (split sep s) = s"
proof (induction s)
  case Nil
  show ?case by simp
next
  case (Cons c cs)
  obtain piece pieces where sp: "split sep cs = piece # pieces"
    using split_not_Nil [of sep cs] by (cases "split sep cs") auto
  show ?case
  proof (cases "c = sep")
    case True
    with Cons sp show ?thesis by simp
  next
    case False
    with Cons sp show ?thesis by (cases pieces) auto
  qed
qed

lemma translate_lines_no_comment:
  "list_all (\<lambda>line. \<not> is_comment line) lines \<Longrightarrow> translate_lines env h lines = (lines, h)"
  by (induction lines) simp_all

lemma translate_lines_append:
  "translate_lines env h (xs @ ys) =
     (let (a, h1) = translate_lines env h xs; (b, h2) = translate_lines env h1 ys
      in (a @ b, h2))"
  by (induction xs arbitrary: h) (auto split: prod.splits sum.splits)

lemma translate_chunks_append:
  "translate_chunks env h (xs @ ys) =
     (let (a, h1) = translate_chunks env h xs; (b, h2) = translate_chunks env h1 ys
      in (a @ b, h2))"
  by (induction xs arbitrary: h) (auto split: prod.splits)

lemma translation_chain_history:
  "snd (translation_chain env h c) = h @ [Translation c (fst (translation_chain env h c))]"
  by (simp add: translation_chain_def Let_def)

lemma translate_lines_history:
  "\<exists>evs. snd (translate_lines env h lines) = h @ evs \<and> list_all is_translation evs"
proof (induction lines arbitrary: h)
  case Nil
  show ?case by simp
next
  case (Cons line lines)
  show ?case
  proof (cases "is_comment line")
    case False
    with Cons [of h] show ?thesis by (auto split: prod.splits)
  next
    case True
    obtain r where r: "translation_chain env h (strip line) = (r, h @ [Translation (strip line) r])"
      by (simp add: translation_chain_def Let_def)
    from Cons [of "h @ [Translation (strip line) r]"] obtain evs where
      evs: "snd (translate_lines env (h @ [Translation (strip line) r]) lines) =
              (h @ [Translation (strip line) r]) @ evs" "list_all is_translation evs"
      by blast
    have "snd (translate_lines env h (line # lines)) = h @ (Translation (strip line) r # evs)"
      using True r evs(1) by (cases r) (auto split: prod.splits)
    moreover have "list_all is_translation (Translation (strip line) r # evs)"
      using evs(2) by simp
    ultimately show ?thesis by blast
  qed
qed

lemma translate_chunk_history:
  "\<exists>evs. snd (translate_chunk env h chunk) = h @ evs \<and> list_all is_translation evs"
proof (cases "chunk_type chunk = ascii ''code''")
  case True
  obtain evs where "snd (translate_lines env h (split 10 (content chunk))) = h @ evs"
    "list_all is_translation evs"
    using translate_lines_history by blast
  with True show ?thesis
    by (auto simp: translate_chunk_def translate_code_block_def split: prod.splits)
next
  case False
  then have "snd (translate_chunk env h chunk) =
      h @ [Translation (content chunk) (fst (translation_chain env h (content chunk)))]"
    by (auto simp: translate_chunk_def translation_chain_def Let_def split: sum.splits)
  then show ?thesis by auto
qed

lemma translate_chunks_history:
  "\<exists>evs. snd (translate_chunks env h chunks) = h @ evs \<and> list_all is_translation evs"
proof (induction chunks arbitrary: h)
  case Nil
  show ?case by simp
next
  case (Cons chunk chunks)
  obtain e1 where e1: "snd (translate_chunk env h chunk) = h @ e1" "list_all is_translation e1"
    using translate_chunk_history by blast
  obtain e2 where e2: "snd (translate_chunks env (h @ e1) chunks) = (h @ e1) @ e2"
    "list_all is_translation e2"
    using Cons by blast
  have "snd (translate_chunks env h (chunk # chunks)) = h @ (e1 @ e2)"
    using e1(1) e2(1) by (auto split: prod.splits)
  moreover have "list_all is_translation (e1 @ e2)"
    using e1(2) e2(2) by simp
  ultimately show ?case by blast
qed

lemma length_translate_chunks: "length (fst (translate_chunks env h chunks)) = length chunks"
  by (induction chunks arbitrary: h) (simp_all add: case_prod_beta Let_def)


subsection \<open>Code blocks\<close>

text \<open>
  C4. A code block in which no line, once stripped, starts with \<open>#\<close> or \<open>//\<close> comes back
  from \<open>_translate_code_block\<close> exactly as it went in, the trailing newline included, and
  no call to the model is made.
\<close>

theorem code_block_without_comments_unchanged:
  assumes "list_all (\<lambda>line. \<not> is_comment line) (split 10 code_content)"
  shows "translate_code_block env h code_content = (code_content, h)"
  using assms by (simp add: translate_code_block_def translate_lines_no_comment join_split)

theorem code_block_without_comments_unchanged_witness:
  "list_all (\<lambda>line. \<not> is_comment line) (split 10 (ascii ''x = 1'' @ [10] @ ascii ''  y = 2'' @ [10]))
   \<and> translate_code_block (example_env (\<lambda>n. Inr []) (\<lambda>n. Inr []) (ascii ''code'') 5 []) []
        (ascii ''x = 1'' @ [10] @ ascii ''  y = 2'' @ [10])
      = (ascii ''x = 1'' @ [10] @ ascii ''  y = 2'' @ [10], [])"
proof -
  have nc: "list_all (\<lambda>line. \<not> is_comment line)
              (split 10 (ascii ''x = 1'' @ [10] @ ascii ''  y = 2'' @ [10]))"
    by (simp add: ascii_def is_comment_def strip_def lstrip_def rstrip_def isspace_def)
  from code_block_without_comments_unchanged [OF nc] nc show ?thesis by blast
qed

text \<open>
  C9. In \<open>_translate_code_block\<close>, when the model call for one comment line raises, the
  block still comes back as a string: the lines before keep their results, the comment
  line stands in the output exactly as it was in the input, and the loop goes on with the
  lines after it, from the record of calls extended by the failed call.
\<close>

theorem comment_line_failure_contained:
  assumes "split 10 code_content = before @ line # after"
    and "is_comment line"
    and "translate_lines env h before = (done, h1)"
    and "llm_translation env h1 (strip line) = Inl e"
  shows "translate_code_block env h code_content =
           (join [10] (done @ line #
              fst (translate_lines env (h1 @ [Translation (strip line) (Inl e)]) after)),
            snd (translate_lines env (h1 @ [Translation (strip line) (Inl e)]) after))"
proof -
  have "translate_lines env h1 (line # after) =
          (line # fst (translate_lines env (h1 @ [Translation (strip line) (Inl e)]) after),
           snd (translate_lines env (h1 @ [Translation (strip line) (Inl e)]) after))"
    using assms(2,4) by (simp add: translation_chain_def case_prod_beta Let_def)
  then show ?thesis
    using assms(1,3) by (simp add: translate_code_block_def translate_lines_append)
qed

theorem comment_line_failure_contained_witness:
  "translate_code_block
     (example_env (\<lambda>n. if n = 0 then Inl (Exception []) else Inr (ascii ''# B''))
        (\<lambda>n. Inr []) (ascii ''code'') 5 [])
     [] (ascii ''# a'' @ [10] @ ascii ''  // b'')
   = (ascii ''# a'' @ [10] @ ascii ''  # B'',
      [Translation (ascii ''# a'') (Inl (Exception [])),
       Translation (ascii ''// b'') (Inr (ascii ''# B''))])"
proof -
  let ?env = "example_env (\<lambda>n. if n = 0 then Inl (Exception []) else Inr (ascii ''# B''))
        (\<lambda>n. Inr []) (ascii ''code'') 5 []"
  have a: "split 10 (ascii ''# a'' @ [10] @ ascii ''  // b'') = [] @ ascii ''# a'' # [ascii ''  // b'']"
    by (simp add: ascii_def)
  have b: "is_comment (ascii ''# a'')"
    by (simp add: ascii_def is_comment_def strip_def lstrip_def rstrip_def isspace_def)
  have c: "translate_lines ?env [] [] = ([], [])"
    by simp
  have d: "llm_translation ?env [] (strip (ascii ''# a'')) = Inl (Exception [])"
    by (simp add: example_env_def)
  show ?thesis
    unfolding comment_line_failure_contained [OF a b c d]
    by (simp add: example_env_def ascii_def is_comment_def strip_def lstrip_def rstrip_def
        isspace_def translation_chain_def parse_def Let_def)
qed


text \<open>
  C3, at the input where the code departs from it. A code chunk is translated line by
  line, its comment lines are sent stripped to the model, and the other lines are kept.
  The translated comment is put behind as many spaces as the line had leading whitespace
  characters, so a comment indented with a tab comes back indented with one space: the
  indentation is kept only when it is made of spaces.
\<close>

theorem tab_indented_comment_loses_its_indentation:
  "translate_chunk
     (example_env (\<lambda>n. Inr (ascii ''# B'')) (\<lambda>n. Inr []) (ascii ''code'') 5 [])
     [] \<lparr>content = 9 # ascii ''# a'', chunk_type = ascii ''code''\<rparr>
   = (32 # ascii ''# B'', [Translation (ascii ''# a'') (Inr (ascii ''# B''))])"
  by (simp add: example_env_def ascii_def is_comment_def strip_def lstrip_def rstrip_def
      isspace_def translation_chain_def translate_chunk_def translate_code_block_def
      parse_def Let_def)

subsection \<open>Chunks that fail\<close>

text \<open>
  C5 as stated fails for a code chunk: the failure of the model call is caught inside
  \<open>_translate_code_block\<close>, line by line, the comment line is kept, and no failure marker
  is produced.
\<close>

theorem failed_code_chunk_has_no_marker:
  "llm_translation
     (example_env (\<lambda>n. Inl (Exception [])) (\<lambda>n. Inr []) (ascii ''code'') 5 [])
     [] (ascii ''# a'') = Inl (Exception [])
   \<and> translate_chunk
       (example_env (\<lambda>n. Inl (Exception [])) (\<lambda>n. Inr []) (ascii ''code'') 5 [])
       [] \<lparr>content = ascii ''# a'', chunk_type = ascii ''code''\<rparr>
     = (ascii ''# a'', [Translation (ascii ''# a'') (Inl (Exception []))])
   \<and> \<not> startswith (ascii ''# a'') failure_marker"
  by (simp add: example_env_def ascii_def is_comment_def strip_def lstrip_def rstrip_def
      isspace_def translation_chain_def translate_chunk_def translate_code_block_def
      failure_marker_def Let_def)

text \<open>
  C5, amended. For a chunk that is not of type code, when the model call raises,
  \<open>translate_chunk\<close> returns the failure marker followed by the content of the chunk, and
  the loop over the chunks goes on: the results of the chunks before are kept, the chunks
  after are translated from the record of calls extended by the failed call, and there is
  one result for each chunk.
\<close>

theorem failed_chunk_marked_and_loop_continues:
  assumes "chunk_type chunk \<noteq> ascii ''code''"
    and "translate_chunks env h before = (done, h1)"
    and "llm_translation env h1 (content chunk) = Inl e"
  shows "translate_chunk env h1 chunk =
           (failure_marker @ content chunk, h1 @ [Translation (content chunk) (Inl e)])
         \<and> translate_chunks env h (before @ chunk # after) =
           (done @ (failure_marker @ content chunk) #
              fst (translate_chunks env (h1 @ [Translation (content chunk) (Inl e)]) after),
            snd (translate_chunks env (h1 @ [Translation (content chunk) (Inl e)]) after))
         \<and> length (fst (translate_chunks env h (before @ chunk # after))) =
           length (before @ chunk # after)"
proof -
  have one: "translate_chunk env h1 chunk =
           (failure_marker @ content chunk, h1 @ [Translation (content chunk) (Inl e)])"
    using assms(1,3) by (simp add: translate_chunk_def translation_chain_def Let_def)
  then have "translate_chunks env h1 (chunk # after) =
          ((failure_marker @ content chunk) #
              fst (translate_chunks env (h1 @ [Translation (content chunk) (Inl e)]) after),
            snd (translate_chunks env (h1 @ [Translation (content chunk) (Inl e)]) after))"
    by (simp add: case_prod_beta)
  then have two: "translate_chunks env h (before @ chunk # after) =
           (done @ (failure_marker @ content chunk) #
              fst (translate_chunks env (h1 @ [Translation (content chunk) (Inl e)]) after),
            snd (translate_chunks env (h1 @ [Translation (content chunk) (Inl e)]) after))"
    using assms(2) by (simp add: translate_chunks_append)
  have three: "length (fst (translate_chunks env h (before @ chunk # after))) =
           length (before @ chunk # after)"
    by (rule length_translate_chunks)
  from one two three show ?thesis by blast
qed

theorem failed_chunk_marked_and_loop_continues_witness:
  "translate_chunks
     (example_env (\<lambda>n. if n = 0 then Inl (Exception []) else Inr (ascii ''B''))
        (\<lambda>n. Inr []) (ascii ''paragraph'') 5 [])
     [] [\<lparr>content = ascii ''a'', chunk_type = ascii ''paragraph''\<rparr>,
         \<lparr>content = ascii ''b'', chunk_type = ascii ''paragraph''\<rparr>]
   = ([failure_marker @ ascii ''a'', ascii ''B''],
      [Translation (ascii ''a'') (Inl (Exception [])),
       Translation (ascii ''b'') (Inr (ascii ''B''))])"
proof -
  let ?env = "example_env (\<lambda>n. if n = 0 then Inl (Exception []) else Inr (ascii ''B''))
        (\<lambda>n. Inr []) (ascii ''paragraph'') 5 []"
  let ?a = "\<lparr>content = ascii ''a'', chunk_type = ascii ''paragraph''\<rparr>"
  let ?b = "\<lparr>content = ascii ''b'', chunk_type = ascii ''paragraph''\<rparr>"
  have a: "chunk_type ?a \<noteq> ascii ''code''"
    by (simp add: ascii_def)
  have b: "translate_chunks ?env [] [] = ([], [])"
    by simp
  have c: "llm_translation ?env [] (content ?a) = Inl (Exception [])"
    by (simp add: example_env_def)
  have rest: "translate_chunks ?env [Translation (ascii ''a'') (Inl (Exception []))] [?b] =
      ([ascii ''B''], [Translation (ascii ''a'') (Inl (Exception [])),
       Translation (ascii ''b'') (Inr (ascii ''B''))])"
    by (simp add: example_env_def ascii_def strip_def lstrip_def rstrip_def
        isspace_def translation_chain_def translate_chunk_def parse_def Let_def)
  from failed_chunk_marked_and_loop_continues [OF a b c, of "[?b]"] rest
  show ?thesis by simp
qed

subsection \<open>The completeness check of \<open>translate_content\<close>\<close>


lemma last_translated_summary_append:
  "last_translated_summary (xs @ ys) =
     (case last_translated_summary ys of
        Some r \<Rightarrow> Some r
      | None \<Rightarrow> last_translated_summary xs)"
  by (induction xs) (auto split: option.splits)

lemma last_comparison_append:
  "last_comparison (xs @ ys) =
     (case last_comparison ys of Some r \<Rightarrow> Some r | None \<Rightarrow> last_comparison xs)"
  by (induction xs) (auto split: option.splits)

lemma first_pass_fields:
  "p_original_summary (first_pass env h c) = generate_original_summary env h c"
  "p_chunks (first_pass env h c) = chunk_text env c"
  "p_translated_content (first_pass env h c) =
     merge_translated_chunks (fst (translate_chunks env
       (h @ [OriginalSummary c (generate_original_summary env h c)]) (chunk_text env c)))"
  by (simp_all add: first_pass_def Let_def case_prod_beta)

lemma first_pass_history:
  "\<exists>evs. p_history (first_pass env h c) =
           h @ OriginalSummary c (p_original_summary (first_pass env h c)) # evs @
             [TranslatedSummary (p_translated_content (first_pass env h c))
                (p_translated_summary (first_pass env h c)),
              Comparison (p_original_summary (first_pass env h c))
                (p_translated_summary (first_pass env h c))
                (p_comparison_result (first_pass env h c))]
         \<and> list_all is_translation evs"
proof -
  obtain evs where evs:
    "snd (translate_chunks env (h @ [OriginalSummary c (generate_original_summary env h c)])
           (chunk_text env c)) =
       (h @ [OriginalSummary c (generate_original_summary env h c)]) @ evs"
    "list_all is_translation evs"
    using translate_chunks_history by blast
  have "p_history (first_pass env h c) =
           h @ OriginalSummary c (p_original_summary (first_pass env h c)) # evs @
             [TranslatedSummary (p_translated_content (first_pass env h c))
                (p_translated_summary (first_pass env h c)),
              Comparison (p_original_summary (first_pass env h c))
                (p_translated_summary (first_pass env h c))
                (p_comparison_result (first_pass env h c))]"
    using evs(1) by (simp add: first_pass_def Let_def case_prod_beta)
  with evs(2) show ?thesis by blast
qed


lemma retranslate_with_focus_history:
  "snd (retranslate_with_focus env h t m) =
     h @ [Retranslation t m (fst (retranslation_chain env h t m))]"
  by (simp add: retranslate_with_focus_def retranslation_chain_def Let_def split: sum.splits)

lemmas example_run_simps =
  example_env_def ascii_def strip_def lstrip_def rstrip_def isspace_def parse_def
  translation_chain_def translate_chunk_def merge_translated_chunks_def first_pass_def
  none_sentinel_def Let_def

lemma example_first_pass:
  "first_pass (example_env (\<lambda>n. Inr (ascii ''T'')) rt (ascii ''paragraph'') sc mc) []
     (ascii ''hello'') =
   \<lparr>p_original_summary = ascii ''hello'',
    p_chunks = [\<lparr>content = ascii ''hello'', chunk_type = ascii ''paragraph''\<rparr>],
    p_translated_content = ascii ''T'',
    p_translated_summary = ascii ''T'',
    p_comparison_result = \<lparr>completeness_score = sc, missing_content = mc, suggestions = []\<rparr>,
    p_history =
      [OriginalSummary (ascii ''hello'') (ascii ''hello''),
       Translation (ascii ''hello'') (Inr (ascii ''T'')),
       TranslatedSummary (ascii ''T'') (ascii ''T''),
       Comparison (ascii ''hello'') (ascii ''T'')
         \<lparr>completeness_score = sc, missing_content = mc, suggestions = []\<rparr>]\<rparr>"
  by (simp add: example_run_simps)




text \<open>
  C6. When the retranslation call raises, \<open>translate_content\<close> returns: its translation
  is the merged translation of the first pass, its stats hold the summaries and the
  comparison of the first pass, and the only call after the first comparison is the
  failed retranslation, so neither the summary nor the comparison is computed again.
\<close>

theorem failed_retranslation_keeps_merged_translation:
  assumes "first_pass env h c = p"
    and "completeness_score (p_comparison_result p) < 8"
    and "missing_content (p_comparison_result p) \<noteq> none_sentinel"
    and "llm_retranslation env (p_history p) c (missing_content (p_comparison_result p)) = Inl e"
  shows "translate_content env h c =
           ((p_translated_content p,
             \<lparr>original_summary = p_original_summary p,
              translated_summary = p_translated_summary p,
              comparison_result = p_comparison_result p,
              chunk_count = length (p_chunks p),
              completeness_score_stats = completeness_score (p_comparison_result p)\<rparr>),
            p_history p @ [Retranslation c (missing_content (p_comparison_result p)) (Inl e)])
         \<and> p_translated_content p =
             merge_translated_chunks (fst (translate_chunks env
               (h @ [OriginalSummary c (generate_original_summary env h c)]) (chunk_text env c)))"
proof -
  have "retranslate_with_focus env (p_history p) c (missing_content (p_comparison_result p)) =
          (None, p_history p @ [Retranslation c (missing_content (p_comparison_result p)) (Inl e)])"
    using assms(4) by (simp add: retranslate_with_focus_def retranslation_chain_def Let_def)
  then have "completeness_check env c p =
           ((p_translated_content p,
             \<lparr>original_summary = p_original_summary p,
              translated_summary = p_translated_summary p,
              comparison_result = p_comparison_result p,
              chunk_count = length (p_chunks p),
              completeness_score_stats = completeness_score (p_comparison_result p)\<rparr>),
            p_history p @ [Retranslation c (missing_content (p_comparison_result p)) (Inl e)])"
    using assms(2,3) by (simp add: completeness_check_def)
  moreover have "p_translated_content p =
             merge_translated_chunks (fst (translate_chunks env
               (h @ [OriginalSummary c (generate_original_summary env h c)]) (chunk_text env c)))"
    using assms(1) first_pass_fields(3) [of env h c] by simp
  ultimately show ?thesis
    using assms(1) by (simp add: translate_content_def)
qed

theorem failed_retranslation_keeps_merged_translation_witness:
  "translate_content
     (example_env (\<lambda>n. Inr (ascii ''T'')) (\<lambda>n. Inl (Exception [])) (ascii ''paragraph'') 5
        (ascii ''gap''))
     [] (ascii ''hello'') =
   ((ascii ''T'',
     \<lparr>original_summary = ascii ''hello'', translated_summary = ascii ''T'',
      comparison_result =
        \<lparr>completeness_score = 5, missing_content = ascii ''gap'', suggestions = []\<rparr>,
      chunk_count = 1, completeness_score_stats = 5\<rparr>),
    [OriginalSummary (ascii ''hello'') (ascii ''hello''),
     Translation (ascii ''hello'') (Inr (ascii ''T'')),
     TranslatedSummary (ascii ''T'') (ascii ''T''),
     Comparison (ascii ''hello'') (ascii ''T'')
       \<lparr>completeness_score = 5, missing_content = ascii ''gap'', suggestions = []\<rparr>,
     Retranslation (ascii ''hello'') (ascii ''gap'') (Inl (Exception []))])"
proof -
  let ?env = "example_env (\<lambda>n. Inr (ascii ''T'')) (\<lambda>n. Inl (Exception []))
                (ascii ''paragraph'') 5 (ascii ''gap'')"
  note fp = example_first_pass [of "\<lambda>n. Inl (Exception [])" 5 "ascii ''gap''"]
  have a: "completeness_score (p_comparison_result (first_pass ?env [] (ascii ''hello''))) < 8"
    unfolding fp by simp
  have b: "missing_content (p_comparison_result (first_pass ?env [] (ascii ''hello''))) \<noteq> none_sentinel"
    unfolding fp by (simp add: ascii_def none_sentinel_def)
  have c: "llm_retranslation ?env (p_history (first_pass ?env [] (ascii ''hello''))) (ascii ''hello'')
             (missing_content (p_comparison_result (first_pass ?env [] (ascii ''hello'')))) =
           Inl (Exception [])"
    by (simp add: example_env_def)
  from failed_retranslation_keeps_merged_translation [OF refl a b c]
  show ?thesis unfolding fp by simp
qed

text \<open>
  C7 as stated fails when the retranslation call returns without raising but its output
  is empty once stripped: \<open>if retranslated_content\<close> is then false, the merged
  translation stays, and nothing is computed again.
\<close>

theorem empty_retranslation_does_not_replace:
  "translate_content
     (example_env (\<lambda>n. Inr (ascii ''T'')) (\<lambda>n. Inr []) (ascii ''paragraph'') 5 (ascii ''gap''))
     [] (ascii ''hello'') =
   ((ascii ''T'',
     \<lparr>original_summary = ascii ''hello'', translated_summary = ascii ''T'',
      comparison_result =
        \<lparr>completeness_score = 5, missing_content = ascii ''gap'', suggestions = []\<rparr>,
      chunk_count = 1, completeness_score_stats = 5\<rparr>),
    [OriginalSummary (ascii ''hello'') (ascii ''hello''),
     Translation (ascii ''hello'') (Inr (ascii ''T'')),
     TranslatedSummary (ascii ''T'') (ascii ''T''),
     Comparison (ascii ''hello'') (ascii ''T'')
       \<lparr>completeness_score = 5, missing_content = ascii ''gap'', suggestions = []\<rparr>,
     Retranslation (ascii ''hello'') (ascii ''gap'') (Inr [])])
   \<and> fst (fst (translate_content
       (example_env (\<lambda>n. Inr (ascii ''T'')) (\<lambda>n. Inr []) (ascii ''paragraph'') 5 (ascii ''gap''))
       [] (ascii ''hello''))) \<noteq> []"
  by (simp add: translate_content_def completeness_check_def retranslate_with_focus_def
      retranslation_chain_def example_run_simps)

text \<open>
  C7, amended. When the retranslation call returns and its stripped output is not empty,
  that output is the translation returned, and the summary of the translation and the
  comparison are computed once more, on that output, with no further retranslation call;
  when the stripped output is empty, the merged translation, its summary and the first
  comparison are returned and nothing is computed again.
\<close>

theorem nonempty_retranslation_replaces_translation:
  assumes "first_pass env h c = p"
    and "completeness_score (p_comparison_result p) < 8"
    and "missing_content (p_comparison_result p) \<noteq> none_sentinel"
    and "llm_retranslation env (p_history p) c (missing_content (p_comparison_result p)) = Inr text"
    and "h5 = p_history p @ [Retranslation c (missing_content (p_comparison_result p)) (Inr (parse text))]"
    and "s = generate_translated_summary env h5 (parse text)"
    and "r = compare_summaries env (h5 @ [TranslatedSummary (parse text) s]) (p_original_summary p) s"
  shows "translate_content env h c =
           (if parse text \<noteq> [] then
              ((parse text,
                \<lparr>original_summary = p_original_summary p,
                 translated_summary = s,
                 comparison_result = r,
                 chunk_count = length (p_chunks p),
                 completeness_score_stats = completeness_score r\<rparr>),
               h5 @ [TranslatedSummary (parse text) s, Comparison (p_original_summary p) s r])
            else
              ((p_translated_content p,
                \<lparr>original_summary = p_original_summary p,
                 translated_summary = p_translated_summary p,
                 comparison_result = p_comparison_result p,
                 chunk_count = length (p_chunks p),
                 completeness_score_stats = completeness_score (p_comparison_result p)\<rparr>),
               h5))"
proof -
  have "retranslate_with_focus env (p_history p) c (missing_content (p_comparison_result p)) =
          (Some (parse text), h5)"
    using assms(4,5) by (simp add: retranslate_with_focus_def retranslation_chain_def Let_def)
  then have "completeness_check env c p =
           (if parse text \<noteq> [] then
              ((parse text,
                \<lparr>original_summary = p_original_summary p,
                 translated_summary = s,
                 comparison_result = r,
                 chunk_count = length (p_chunks p),
                 completeness_score_stats = completeness_score r\<rparr>),
               h5 @ [TranslatedSummary (parse text) s, Comparison (p_original_summary p) s r])
            else
              ((p_translated_content p,
                \<lparr>original_summary = p_original_summary p,
                 translated_summary = p_translated_summary p,
                 comparison_result = p_comparison_result p,
                 chunk_count = length (p_chunks p),
                 completeness_score_stats = completeness_score (p_comparison_result p)\<rparr>),
               h5))"
    using assms(2,3,6,7) by (simp add: completeness_check_def Let_def)
  then show ?thesis
    using assms(1) by (simp add: translate_content_def)
qed

theorem nonempty_retranslation_replaces_translation_witness:
  "translate_content
     (example_env (\<lambda>n. Inr (ascii ''T'')) (\<lambda>n. Inr (ascii '' R '')) (ascii ''paragraph'') 5
        (ascii ''gap''))
     [] (ascii ''hello'') =
   ((ascii ''R'',
     \<lparr>original_summary = ascii ''hello'', translated_summary = ascii ''R'',
      comparison_result =
        \<lparr>completeness_score = 5, missing_content = ascii ''gap'', suggestions = []\<rparr>,
      chunk_count = 1, completeness_score_stats = 5\<rparr>),
    [OriginalSummary (ascii ''hello'') (ascii ''hello''),
     Translation (ascii ''hello'') (Inr (ascii ''T'')),
     TranslatedSummary (ascii ''T'') (ascii ''T''),
     Comparison (ascii ''hello'') (ascii ''T'')
       \<lparr>completeness_score = 5, missing_content = ascii ''gap'', suggestions = []\<rparr>,
     Retranslation (ascii ''hello'') (ascii ''gap'') (Inr (ascii ''R'')),
     TranslatedSummary (ascii ''R'') (ascii ''R''),
     Comparison (ascii ''hello'') (ascii ''R'')
       \<lparr>completeness_score = 5, missing_content = ascii ''gap'', suggestions = []\<rparr>])"
proof -
  let ?env = "example_env (\<lambda>n. Inr (ascii ''T'')) (\<lambda>n. Inr (ascii '' R ''))
                (ascii ''paragraph'') 5 (ascii ''gap'')"
  note fp = example_first_pass [of "\<lambda>n. Inr (ascii '' R '')" 5 "ascii ''gap''"]
  have a: "completeness_score (p_comparison_result (first_pass ?env [] (ascii ''hello''))) < 8"
    unfolding fp by simp
  have b: "missing_content (p_comparison_result (first_pass ?env [] (ascii ''hello''))) \<noteq> none_sentinel"
    unfolding fp by (simp add: ascii_def none_sentinel_def)
  have c: "llm_retranslation ?env (p_history (first_pass ?env [] (ascii ''hello''))) (ascii ''hello'')
             (missing_content (p_comparison_result (first_pass ?env [] (ascii ''hello'')))) =
           Inr (ascii '' R '')"
    by (simp add: example_env_def)
  have d: "parse (ascii '' R '') = ascii ''R''"
    by (simp add: parse_def ascii_def strip_def lstrip_def rstrip_def isspace_def)
  from nonempty_retranslation_replaces_translation [OF refl a b c refl refl refl]
  show ?thesis unfolding fp d by (simp add: example_env_def ascii_def)
qed

text \<open>
  C8. In the stats returned by \<open>translate_content\<close>, the completeness score is the score
  of the comparison result, the chunk count is the number of chunks the chunker returned,
  and the summary and comparison are the latest ones of the run: the last summary of a
  translation was made from the translation returned and is the one in the stats, and
  the last comparison compared the two summaries in the stats and is the one in the
  stats. After a retranslation that replaced the translation these are the ones computed
  after it.
\<close>

theorem stats_consistent_with_result:
  assumes "translate_content env h c = ((translated_content, st), h')"
  shows "completeness_score_stats st = completeness_score (comparison_result st)
         \<and> chunk_count st = length (chunk_text env c)
         \<and> original_summary st = generate_original_summary env h c
         \<and> last_translated_summary h' = Some (translated_content, translated_summary st)
         \<and> last_comparison h' =
             Some (original_summary st, translated_summary st, comparison_result st)"
proof -
  let ?p = "first_pass env h c"
  obtain evs where ph: "p_history ?p =
           h @ OriginalSummary c (p_original_summary ?p) # evs @
             [TranslatedSummary (p_translated_content ?p) (p_translated_summary ?p),
              Comparison (p_original_summary ?p) (p_translated_summary ?p)
                (p_comparison_result ?p)]"
    using first_pass_history by blast
  have lts: "last_translated_summary (p_history ?p) =
               Some (p_translated_content ?p, p_translated_summary ?p)"
    unfolding ph by (simp add: last_translated_summary_append)
  have lc: "last_comparison (p_history ?p) =
              Some (p_original_summary ?p, p_translated_summary ?p, p_comparison_result ?p)"
    unfolding ph by (simp add: last_comparison_append)
  have rh: "\<And>m. snd (retranslate_with_focus env (p_history ?p) c m) =
      p_history ?p @ [Retranslation c m (fst (retranslation_chain env (p_history ?p) c m))]"
    by (rule retranslate_with_focus_history)
  from assms have cc: "completeness_check env c ?p = ((translated_content, st), h')"
    by (simp add: translate_content_def)
  show ?thesis
  proof (cases "completeness_score (p_comparison_result ?p) < 8
                \<and> missing_content (p_comparison_result ?p) \<noteq> none_sentinel")
    case False
    with cc lts lc show ?thesis
      by (auto simp: completeness_check_def first_pass_fields)
  next
    case True
    let ?m = "missing_content (p_comparison_result ?p)"
    obtain ro h5 where rt: "retranslate_with_focus env (p_history ?p) c ?m = (ro, h5)"
      by (cases "retranslate_with_focus env (p_history ?p) c ?m") auto
    with rh [of ?m] have h5: "h5 = p_history ?p @
        [Retranslation c ?m (fst (retranslation_chain env (p_history ?p) c ?m))]"
      by simp
    have lts5: "last_translated_summary h5 = Some (p_translated_content ?p, p_translated_summary ?p)"
      unfolding h5 using lts by (simp add: last_translated_summary_append)
    have lc5: "last_comparison h5 =
        Some (p_original_summary ?p, p_translated_summary ?p, p_comparison_result ?p)"
      unfolding h5 using lc by (simp add: last_comparison_append)
    show ?thesis
    proof (cases "ro = None \<or> ro = Some []")
      case True
      with cc rt \<open>completeness_score (p_comparison_result ?p) < 8
                \<and> missing_content (p_comparison_result ?p) \<noteq> none_sentinel\<close> lts5 lc5
      show ?thesis
        by (auto simp: completeness_check_def first_pass_fields)
    next
      case False
      then obtain t where t: "ro = Some t" "t \<noteq> []" by (cases ro) auto
      with cc rt \<open>completeness_score (p_comparison_result ?p) < 8
                \<and> missing_content (p_comparison_result ?p) \<noteq> none_sentinel\<close>
      show ?thesis
        by (auto simp: completeness_check_def first_pass_fields Let_def
            last_translated_summary_append last_comparison_append)
    qed
  qed
qed


theorem stats_consistent_with_result_witness:
  "last_translated_summary (snd (translate_content
     (example_env (\<lambda>n. Inr (ascii ''T'')) (\<lambda>n. Inr (ascii ''R'')) (ascii ''paragraph'') 5
        (ascii ''gap''))
     [] (ascii ''hello''))) = Some (ascii ''R'', ascii ''R'')
   \<and> fst (translate_content
     (example_env (\<lambda>n. Inr (ascii ''T'')) (\<lambda>n. Inr (ascii ''R'')) (ascii ''paragraph'') 5
        (ascii ''gap''))
     [] (ascii ''hello'')) =
     (ascii ''R'',
      \<lparr>original_summary = ascii ''hello'', translated_summary = ascii ''R'',
      comparison_result =
        \<lparr>completeness_score = 5, missing_content = ascii ''gap'', suggestions = []\<rparr>,
      chunk_count = 1, completeness_score_stats = 5\<rparr>)"
proof -
  let ?env = "example_env (\<lambda>n. Inr (ascii ''T'')) (\<lambda>n. Inr (ascii ''R''))
                (ascii ''paragraph'') 5 (ascii ''gap'')"
  have run: "fst (translate_content ?env [] (ascii ''hello'')) =
     (ascii ''R'',
      \<lparr>original_summary = ascii ''hello'', translated_summary = ascii ''R'',
      comparison_result =
        \<lparr>completeness_score = 5, missing_content = ascii ''gap'', suggestions = []\<rparr>,
      chunk_count = 1, completeness_score_stats = 5\<rparr>)"
    by (simp add: translate_content_def completeness_check_def retranslate_with_focus_def
      retranslation_chain_def example_run_simps)
  then have "translate_content ?env [] (ascii ''hello'') =
     ((ascii ''R'',
      \<lparr>original_summary = ascii ''hello'', translated_summary = ascii ''R'',
      comparison_result =
        \<lparr>completeness_score = 5, missing_content = ascii ''gap'', suggestions = []\<rparr>,
      chunk_count = 1, completeness_score_stats = 5\<rparr>),
      snd (translate_content ?env [] (ascii ''hello'')))"
    by (metis prod.collapse)
  from stats_consistent_with_result [OF this] run show ?thesis by simp
qed

subsection \<open>Merging the translated chunks\<close>

lemma blank_line_units_not_Nil: "blank_line_units s \<noteq> []"
  by (induction s rule: blank_line_units.induct) (auto split: list.splits)

lemma units_without_blank_line: "\<not> has_blank_line u \<Longrightarrow> blank_line_units u = [u]"
  by (induction u rule: has_blank_line.induct) auto

lemma units_append_separator:
  "u = [] \<or> last u \<noteq> 10 \<Longrightarrow>
   blank_line_units (u @ 10 # 10 # rest) = blank_line_units u @ blank_line_units rest"
proof (induction u rule: induct_list012)
  case 1
  show ?case by simp
next
  case (2 c)
  then show ?case by simp
next
  case (3 c d cs)
  show ?case
  proof (cases "c = 10 \<and> d = 10")
    case True
    with 3 have "cs = [] \<or> last cs \<noteq> 10"
      by (cases cs) auto
    with 3(1) True show ?thesis by simp
  next
    case False
    from 3(3) have "d # cs = [] \<or> last (d # cs) \<noteq> 10"
      by simp
    then have ih: "blank_line_units ((d # cs) @ 10 # 10 # rest) =
                     blank_line_units (d # cs) @ blank_line_units rest"
      by (rule 3(2))
    obtain unit units where u: "blank_line_units (d # cs) = unit # units"
      using blank_line_units_not_Nil [of "d # cs"] by (cases "blank_line_units (d # cs)") auto
    from False ih u show ?thesis by auto
  qed
qed

lemma last_dropWhile: "dropWhile P xs \<noteq> [] \<Longrightarrow> last (dropWhile P xs) = last xs"
  by (induction xs) (auto split: if_splits)

lemma strip_last_not_space: "strip s \<noteq> [] \<Longrightarrow> \<not> isspace (last (strip s))"
proof -
  assume ne: "strip s \<noteq> []"
  let ?r = "rev (dropWhile isspace (rev s))"
  from ne have rne: "?r \<noteq> []"
    by (cases "?r = []") (simp_all add: strip_def lstrip_def rstrip_def)
  have "last (strip s) = last ?r"
    using ne by (simp add: strip_def lstrip_def rstrip_def last_dropWhile)
  also have "\<dots> = hd (dropWhile isspace (rev s))"
    using rne by (simp add: last_rev)
  finally show ?thesis
    using rne hd_dropWhile [of isspace "rev s"] by simp
qed

lemma strip_last_not_newline: "strip s \<noteq> [] \<Longrightarrow> last (strip s) \<noteq> 10"
  using strip_last_not_space [of s] by (auto simp: isspace_def)

lemma units_of_join:
  "us \<noteq> [] \<Longrightarrow> list_all (\<lambda>u. u = [] \<or> last u \<noteq> 10) us \<Longrightarrow>
   blank_line_units (join [10, 10] us) = concat (map blank_line_units us)"
proof (induction us rule: induct_list012)
  case 1
  then show ?case by simp
next
  case (2 x)
  show ?case by simp
next
  case (3 x y ys)
  then have "blank_line_units (join [10, 10] (y # ys)) = concat (map blank_line_units (y # ys))"
    by simp
  moreover have "x = [] \<or> last x \<noteq> 10"
    using 3 by simp
  ultimately show ?case
    by (simp add: units_append_separator)
qed

lemma concat_units_without_blank_line:
  "list_all (\<lambda>chunk. \<not> has_blank_line (strip chunk)) kept \<Longrightarrow>
   concat (map (\<lambda>chunk. blank_line_units (strip chunk)) kept) = map strip kept"
  by (induction kept) (simp_all add: units_without_blank_line)

text \<open>
  C2 as stated fails: a translated chunk that is empty once stripped is left out of the
  merge, so three chunks of which one is a single space give two units.
\<close>

theorem blank_chunk_is_dropped:
  "blank_line_units (merge_translated_chunks [ascii ''a'', ascii '' '', ascii ''b'']) =
     [ascii ''a'', ascii ''b'']
   \<and> length (blank_line_units (merge_translated_chunks [ascii ''a'', ascii '' '', ascii ''b'']))
       < length [ascii ''a'', ascii '' '', ascii ''b'']"
  by (simp add: merge_translated_chunks_def ascii_def strip_def lstrip_def rstrip_def isspace_def)

text \<open>
  C2, amended. The units of the merged text are, in the order of the chunks, the units
  of each translated chunk that is not empty once stripped, taken from the stripped
  chunk: no such chunk is dropped and none is duplicated, and a chunk without a blank
  line of its own gives exactly one unit, the stripped chunk. Chunks that are empty once
  stripped are left out. This is for a list with at least one chunk that is kept.
\<close>

theorem merge_keeps_every_nonblank_chunk_in_order:
  assumes "kept = filter (\<lambda>chunk. strip chunk \<noteq> []) translated_chunks"
    and "kept \<noteq> []"
  shows "blank_line_units (merge_translated_chunks translated_chunks) =
           concat (map (\<lambda>chunk. blank_line_units (strip chunk)) kept)
         \<and> (list_all (\<lambda>chunk. \<not> has_blank_line (strip chunk)) kept \<longrightarrow>
              blank_line_units (merge_translated_chunks translated_chunks) = map strip kept)"
proof -
  have "list_all (\<lambda>u. u = [] \<or> last u \<noteq> 10) (map strip kept)"
    by (auto simp: list_all_iff strip_last_not_newline)
  moreover have "map strip kept \<noteq> []"
    using assms(2) by simp
  ultimately have "blank_line_units (join [10, 10] (map strip kept)) =
           concat (map blank_line_units (map strip kept))"
    by (rule units_of_join [rotated])
  then have general: "blank_line_units (merge_translated_chunks translated_chunks) =
           concat (map (\<lambda>chunk. blank_line_units (strip chunk)) kept)"
    using assms(1) by (simp add: merge_translated_chunks_def comp_def)
  then show ?thesis
    by (simp add: concat_units_without_blank_line)
qed

theorem merge_keeps_every_nonblank_chunk_in_order_witness:
  "blank_line_units (merge_translated_chunks
     [ascii '' a '', ascii '' '', ascii ''p'' @ [10, 10] @ ascii ''q'' @ [10]]) =
     [ascii ''a'', ascii ''p'', ascii ''q'']
   \<and> blank_line_units (merge_translated_chunks [ascii '' a '', ascii '' '', ascii ''b'' @ [10]]) =
     [ascii ''a'', ascii ''b'']"
proof -
  let ?cs = "[ascii '' a '', ascii '' '', ascii ''p'' @ [10, 10] @ ascii ''q'' @ [10]]"
  let ?ds = "[ascii '' a '', ascii '' '', ascii ''b'' @ [10]]"
  have k: "[ascii '' a '', ascii ''p'' @ [10, 10] @ ascii ''q'' @ [10]] =
             filter (\<lambda>chunk. strip chunk \<noteq> []) ?cs"
    by (simp add: ascii_def strip_def lstrip_def rstrip_def isspace_def)
  have ne: "[ascii '' a '', ascii ''p'' @ [10, 10] @ ascii ''q'' @ [10]] \<noteq> []"
    by simp
  have k': "[ascii '' a '', ascii ''b'' @ [10]] = filter (\<lambda>chunk. strip chunk \<noteq> []) ?ds"
    by (simp add: ascii_def strip_def lstrip_def rstrip_def isspace_def)
  have ne': "[ascii '' a '', ascii ''b'' @ [10]] \<noteq> []"
    by simp
  from merge_keeps_every_nonblank_chunk_in_order [OF k ne]
       merge_keeps_every_nonblank_chunk_in_order [OF k' ne']
  show ?thesis
    by (simp add: ascii_def strip_def lstrip_def rstrip_def isspace_def)
qed

subsection \<open>The OpenAI configuration\<close>

lemma config_get_Some:
  "config_get cp section option None = Some v \<Longrightarrow> config_get cp section option fallback = Some v"
  by (auto simp: config_get_def split: option.splits)

lemma config_get_no_section:
  "\<not> has_section cp section \<Longrightarrow> config_get cp section option fallback = fallback"
  by (auto simp: config_get_def has_section_def split: option.splits)

lemma api_key_get_openai_config:
  "api_key (get_openai_config cp environ k b) =
     (if truthy k then k
      else if has_section cp (ascii ''openai'')
            \<and> truthy (config_get cp (ascii ''openai'') (ascii ''api_key'') None)
            \<and> config_get cp (ascii ''openai'') (ascii ''api_key'') None \<noteq> Some api_key_placeholder
           then config_get cp (ascii ''openai'') (ascii ''api_key'') None
      else environ (ascii ''OPENAI_API_KEY''))"
  by (auto simp: get_openai_config_def Let_def truthy_def split: option.splits)

lemma base_url_get_openai_config:
  "base_url (get_openai_config cp environ k b) =
     (if truthy b then b
      else if has_section cp (ascii ''openai'')
            \<and> truthy (config_get cp (ascii ''openai'') (ascii ''base_url'') (Some default_base_url))
           then config_get cp (ascii ''openai'') (ascii ''base_url'') (Some default_base_url)
      else Some (getenv_default environ (ascii ''OPENAI_BASE_URL'') default_base_url))"
  by (auto simp: get_openai_config_def Let_def truthy_def split: option.splits)

lemmas config_run_simps =
  get_openai_config_def openai_section_def has_section_def config_get_def truthy_def
  getenv_default_def api_key_placeholder_def default_base_url_def ascii_def Let_def

text \<open>
  C10 as stated fails: an \<open>api_key\<close> of the configuration file that is empty is not used,
  although it is not the placeholder; the environment variable is.
\<close>

theorem empty_config_api_key_yields_to_environment:
  "config_get (openai_section [ascii ''api_key'' \<mapsto> []]) (ascii ''openai'') (ascii ''api_key'') None
     = Some []
   \<and> [] \<noteq> api_key_placeholder
   \<and> api_key (get_openai_config (openai_section [ascii ''api_key'' \<mapsto> []])
        [ascii ''OPENAI_API_KEY'' \<mapsto> ascii ''sk-env''] None None) = Some (ascii ''sk-env'')"
  by (simp add: config_run_simps)

text \<open>
  C10, amended. For the key: an argument that is not empty wins; otherwise the
  \<open>api_key\<close> of the section \<open>openai\<close> of the configuration file, unless it is empty or
  the placeholder; otherwise the environment variable \<open>OPENAI_API_KEY\<close>. For the URL: an
  argument that is not empty wins; otherwise the \<open>base_url\<close> of the section \<open>openai\<close>
  when it is not empty; when there is no section \<open>openai\<close>, or its \<open>base_url\<close> is
  empty, the environment variable \<open>OPENAI_BASE_URL\<close>, and the default URL when that is
  not set. The case of a section \<open>openai\<close> without \<open>base_url\<close> is left out.
\<close>

theorem openai_config_precedence:
  "api_key (get_openai_config cp environ k b) =
     (if truthy k then k
      else if has_section cp (ascii ''openai'')
            \<and> truthy (config_get cp (ascii ''openai'') (ascii ''api_key'') None)
            \<and> config_get cp (ascii ''openai'') (ascii ''api_key'') None \<noteq> Some api_key_placeholder
           then config_get cp (ascii ''openai'') (ascii ''api_key'') None
      else environ (ascii ''OPENAI_API_KEY''))
   \<and> (truthy b \<longrightarrow> base_url (get_openai_config cp environ k b) = b)
   \<and> (\<not> truthy b \<and> has_section cp (ascii ''openai'')
        \<and> truthy (config_get cp (ascii ''openai'') (ascii ''base_url'') None) \<longrightarrow>
      base_url (get_openai_config cp environ k b) =
        config_get cp (ascii ''openai'') (ascii ''base_url'') None)
   \<and> (\<not> truthy b
        \<and> (\<not> has_section cp (ascii ''openai'')
           \<or> config_get cp (ascii ''openai'') (ascii ''base_url'') None = Some []) \<longrightarrow>
      base_url (get_openai_config cp environ k b) =
        Some (getenv_default environ (ascii ''OPENAI_BASE_URL'') default_base_url))"
proof -
  have a: "truthy b \<longrightarrow> base_url (get_openai_config cp environ k b) = b"
    by (simp add: base_url_get_openai_config)
  have b: "\<not> truthy b \<and> has_section cp (ascii ''openai'')
        \<and> truthy (config_get cp (ascii ''openai'') (ascii ''base_url'') None) \<longrightarrow>
      base_url (get_openai_config cp environ k b) =
        config_get cp (ascii ''openai'') (ascii ''base_url'') None"
  proof (cases "config_get cp (ascii ''openai'') (ascii ''base_url'') None")
    case None
    then show ?thesis by (simp add: truthy_def)
  next
    case (Some v)
    then have "config_get cp (ascii ''openai'') (ascii ''base_url'') (Some default_base_url) = Some v"
      by (rule config_get_Some)
    with Some show ?thesis by (simp add: base_url_get_openai_config)
  qed
  have c: "\<not> truthy b
        \<and> (\<not> has_section cp (ascii ''openai'')
           \<or> config_get cp (ascii ''openai'') (ascii ''base_url'') None = Some []) \<longrightarrow>
      base_url (get_openai_config cp environ k b) =
        Some (getenv_default environ (ascii ''OPENAI_BASE_URL'') default_base_url)"
  proof (cases "has_section cp (ascii ''openai'')")
    case False
    then show ?thesis by (simp add: base_url_get_openai_config)
  next
    case True
    show ?thesis
    proof (cases "config_get cp (ascii ''openai'') (ascii ''base_url'') None = Some []")
      case False
      with True show ?thesis by simp
    next
      case True
      then have "config_get cp (ascii ''openai'') (ascii ''base_url'') (Some default_base_url) = Some []"
        by (rule config_get_Some)
      then show ?thesis by (simp add: base_url_get_openai_config truthy_def)
    qed
  qed
  from api_key_get_openai_config [of cp environ k b] a b c show ?thesis by blast
qed

theorem openai_config_precedence_witness:
  "get_openai_config
     (openai_section [ascii ''api_key'' \<mapsto> ascii ''sk-file'', ascii ''base_url'' \<mapsto> ascii ''http://h''])
     [ascii ''OPENAI_API_KEY'' \<mapsto> ascii ''sk-env''] None None =
   \<lparr>api_key = Some (ascii ''sk-file''), base_url = Some (ascii ''http://h'')\<rparr>"
proof -
  let ?cp = "openai_section [ascii ''api_key'' \<mapsto> ascii ''sk-file'', ascii ''base_url'' \<mapsto> ascii ''http://h'']"
  let ?r = "get_openai_config ?cp [ascii ''OPENAI_API_KEY'' \<mapsto> ascii ''sk-env''] None None"
  have hs: "has_section ?cp (ascii ''openai'')"
    by (simp add: openai_section_def has_section_def)
  have k: "config_get ?cp (ascii ''openai'') (ascii ''api_key'') None = Some (ascii ''sk-file'')"
    by (simp add: openai_section_def config_get_def ascii_def)
  have u: "config_get ?cp (ascii ''openai'') (ascii ''base_url'') None = Some (ascii ''http://h'')"
    by (simp add: openai_section_def config_get_def ascii_def)
  have p: "Some (ascii ''sk-file'') \<noteq> Some api_key_placeholder"
    by (simp add: ascii_def api_key_placeholder_def)
  from openai_config_precedence [of ?cp "[ascii ''OPENAI_API_KEY'' \<mapsto> ascii ''sk-env'']" None None]
  have "api_key ?r = Some (ascii ''sk-file'') \<and> base_url ?r = Some (ascii ''http://h'')"
    unfolding k u using hs p by (simp add: truthy_def ascii_def)
  then show ?thesis by (cases ?r) simp
qed

text \<open>
  The case left out: with a section \<open>openai\<close> that has no \<open>base_url\<close>, the fallback of
  \<open>config.get\<close> supplies the default URL before the environment is looked at, so
  \<open>OPENAI_BASE_URL\<close> is ignored, while without the section it is used. The key, read
  with the fallback \<open>None\<close>, does not have this difference.
\<close>

lemma section_without_base_url_ignores_environment:
  "base_url (get_openai_config (openai_section [ascii ''api_key'' \<mapsto> ascii ''sk-file''])
        [ascii ''OPENAI_BASE_URL'' \<mapsto> ascii ''http://proxy''] None None) = Some default_base_url
   \<and> base_url (get_openai_config \<lparr>cp_defaults = Map.empty, cp_sections = Map.empty\<rparr>
        [ascii ''OPENAI_BASE_URL'' \<mapsto> ascii ''http://proxy''] None None) = Some (ascii ''http://proxy'')"
  by (simp add: config_run_simps)

end
